theory Spec2Isabelle
  imports Main
begin

section \<open>Data model of the Okta client (okta.go)\<close>

text \<open>
  Go strings and byte slices are sequences of bytes; both are modelled as \<open>string\<close>
  (a list of 8-bit characters), so \<open>string(data)\<close> is the identity.
\<close>

type_synonym bytes = string

text \<open>
  A response body is an \<open>io.ReadCloser\<close>. Reading it delivers the bytes of \<open>content\<close> and
  then ends, either cleanly (\<open>failure = None\<close>, the reader reports \<open>io.EOF\<close>) or with an
  I/O error (\<open>failure = Some msg\<close>) after the bytes of \<open>content\<close> have been delivered.
\<close>

record body =
  content :: bytes
  failure :: "string option"

text \<open>
  \<open>net/url.URL\<close>, reduced to the fields this program reads or writes. Parsing, printing and
  reference resolution belong to the library and are parameters of the functions below.
\<close>

record url =
  Scheme :: string
  Host :: string
  Path :: string
  RawQuery :: string

text \<open>
  \<open>http.Header\<close> is a map from canonical header names to lists of values.
  \<open>Header.Set\<close> replaces the list by the single new value. The four names this program
  sets (\<open>Accept\<close>, \<open>Content-Type\<close>, \<open>Authorization\<close>, \<open>User-Agent\<close>) are already in
  canonical form, so the library's canonicalisation of the key is the identity on them.
  The header map of a request is an allocated map, as \<open>http.NewRequest\<close> returns it;
  a request with a nil header map, on which \<open>Set\<close> panics, is not a value of this model.
\<close>

type_synonym header = "string \<rightharpoonup> string list"

text \<open>
  A \<open>context.Context\<close>, as far as \<open>Do\<close> looks at it: \<open>Done\<close> is closed exactly when \<open>Err\<close> is
  non-nil. \<open>Do\<close> reads the context once, after the transport has returned; the value
  modelled is the context's state at that moment. A context that was done before the
  dispatch is still done then. The context is non-nil, as the comment on \<open>Do\<close> requires.
\<close>

datatype ctx_error = Canceled | DeadlineExceeded

datatype ctx = Active | Done ctx_error

fun ctx_Err :: "ctx \<Rightarrow> ctx_error option" where
  "ctx_Err Active = None"
| "ctx_Err (Done e) = Some e"

record request =
  Method :: string
  URL :: url
  Header :: header
  ReqBody :: "bytes option"
  Context :: ctx

text \<open>\<open>http.Response\<close>: status code, headers and the body stream.\<close>

record http_Response =
  StatusCode :: int
  RespHeader :: header
  Body :: body

text \<open>\<open>type Response struct { *http.Response }\<close>\<close>

datatype Response = Response http_Response

text \<open>
  \<open>type ErrorResponse struct\<close>. Its field \<open>Response\<close> is \<open>ErrResponse\<close> here (the name
  \<open>Response\<close> is taken by the wrapper above). \<open>Code\<close> is an \<open>int64\<close> holding
  \<open>int64(r.StatusCode)\<close>; the conversion from Go's \<open>int\<close> (32 or 64 bits) to \<open>int64\<close>
  preserves the value, so both are integers here.
\<close>

record ErrorResponse =
  ErrResponse :: http_Response
  Code :: int
  Type :: string
  Message :: string

text \<open>
  The error values that reach a caller. A Go \<open>error\<close> result is \<open>error option\<close>, with
  \<open>None\<close> for \<open>nil\<close>; a panic is the value \<open>Panic\<close>.
\<close>

datatype error =
    ContextError ctx_error
  | TransportError string
  | ReadError string
  | EOF
  | ErrUnexpectedEOF
  | JSONError string
  | URLError string
  | QueryError string
  | RequestError string
  | APIError ErrorResponse
  | Panic string

section \<open>Library functions the client calls\<close>

subsection \<open>fmt.Sprintf\<close>

text \<open>
  \<open>fmt.Sprintf\<close> for operands that are strings and formats built from literal text, \<open>%%\<close>
  and the verbs \<open>%s\<close> and \<open>%v\<close> (which print a string operand as it is). A verb with no
  operand left prints \<open>%!s(MISSING)\<close>, a lone \<open>%\<close> at the end prints \<open>%!(NOVERB)\<close>,
  operands left over are listed as \<open>%!(EXTRA string=...)\<close>. Any other verb character is
  printed the way Go prints a verb that does not apply to a string, \<open>%!c(string=...)\<close>;
  flags, widths and the string verbs \<open>q\<close>, \<open>x\<close>, \<open>X\<close>, \<open>T\<close> are outside this model
  (the two formats of this program, \<open>https://%s.okta.com/\<close> and \<open>SSWS %s\<close>, use \<open>%s\<close> only).
\<close>

fun extra_args :: "string list \<Rightarrow> string" where
  "extra_args [] = []"
| "extra_args [a] = ''string='' @ a"
| "extra_args (a # b # as) = ''string='' @ a @ '', '' @ extra_args (b # as)"

fun Sprintf :: "string \<Rightarrow> string list \<Rightarrow> string" where
  "Sprintf [] as = (if as = [] then [] else ''%!(EXTRA '' @ extra_args as @ '')'')"
| "Sprintf (c # f) as =
     (if c \<noteq> CHR ''%'' then c # Sprintf f as
      else (case f of
          [] \<Rightarrow> ''%!(NOVERB)'' @ Sprintf [] as
        | v # f' \<Rightarrow>
            if v = CHR ''%'' then CHR ''%'' # Sprintf f' as
            else (case as of
                [] \<Rightarrow> ''%!'' @ [v] @ ''(MISSING)'' @ Sprintf f' []
              | a # as' \<Rightarrow>
                  if v = CHR ''s'' \<or> v = CHR ''v'' then a @ Sprintf f' as'
                  else ''%!'' @ [v] @ ''(string='' @ a @ '')'' @ Sprintf f' as')))"

subsection \<open>ioutil.ReadAll\<close>

text \<open>
  \<open>ioutil.ReadAll\<close> reads until the stream ends. It returns the bytes read so far and the
  error that stopped it; a clean end is not an error. The slice it returns is allocated
  before the first read and is never nil, also when nothing was read: the result is
  always \<open>Some\<close>.
\<close>

definition ReadAll :: "body \<Rightarrow> bytes option \<times> error option" where
  "ReadAll b = (Some (content b), map_option ReadError (failure b))"

section \<open>The client\<close>

subsection \<open>checkResponse\<close>

text \<open>
  \<open>StatusText\<close> is \<open>http.StatusText\<close>, the library's table from status codes to labels.
\<close>

definition checkResponse :: "(int \<Rightarrow> string) \<Rightarrow> http_Response \<Rightarrow> error option" where
  "checkResponse StatusText r =
     (let c = StatusCode r in
      if 200 \<le> c \<and> c \<le> 299 then None
      else
        let errorResponse = \<lparr>ErrResponse = r, Code = 0, Type = [], Message = []\<rparr>;
            (data, err) = ReadAll (Body r)
        in if err = None \<and> data \<noteq> None
           then Some (APIError (errorResponse
                  \<lparr>Code := StatusCode r, Type := StatusText (StatusCode r), Message := the data\<rparr>))
           else Some (APIError errorResponse))"

subsection \<open>New\<close>

text \<open>
  \<open>type Client struct\<close>. The transport handle \<open>client\<close> is the \<open>transport\<close> parameter of
  \<open>Do\<close>; the service aliases \<open>common\<close>, \<open>User\<close> and \<open>Group\<close> point back to the client
  and carry no data of their own. \<open>BaseURL\<close> is a pointer and may be nil.
\<close>

record Client =
  BaseURL :: "url option"
  organisation :: string
  apiToken :: string
  UserAgent :: string

definition baseURL :: string where
  "baseURL = ''https://%s.okta.com/''"

definition buildURL :: "string \<Rightarrow> string list \<Rightarrow> string" where
  "buildURL baseURL' args = Sprintf baseURL' args"

text \<open>
  \<open>Parse\<close> is \<open>url.Parse\<close>; on an error it returns a nil URL. \<open>New\<close> assigns the URL to
  \<open>c.BaseURL\<close> and the error to the blank identifier, and has no error result.
\<close>

definition New :: "(string \<Rightarrow> error + url) \<Rightarrow> string \<Rightarrow> string \<Rightarrow> Client" where
  "New Parse apiToken' organisation' =
     (let c = \<lparr>BaseURL = None, organisation = organisation', apiToken = apiToken',
                UserAgent = []\<rparr>
      in c\<lparr>BaseURL := (case Parse (buildURL baseURL [organisation']) of
                          Inl _ \<Rightarrow> None
                        | Inr u \<Rightarrow> Some u)\<rparr>)"

subsection \<open>addOptions\<close>

text \<open>
  The \<open>opt interface{}\<close> argument: the nil interface, a nil pointer of some type (the
  only case where \<open>v.Kind() == reflect.Ptr && v.IsNil()\<close> holds), or any other value.
  \<open>Values\<close> is \<open>query.Values\<close> of go-querystring and \<open>Encode\<close> is \<open>url.Values.Encode\<close>.
\<close>

datatype 'p opt = NilInterface | NilPtr | NonNil 'p

definition addOptions ::
  "(string \<Rightarrow> error + url) \<Rightarrow> ('p opt \<Rightarrow> error + 'q) \<Rightarrow> ('q \<Rightarrow> string) \<Rightarrow> (url \<Rightarrow> string)
     \<Rightarrow> string \<Rightarrow> 'p opt \<Rightarrow> string \<times> error option" where
  "addOptions Parse Values Encode String s opt =
     (case opt of
        NilPtr \<Rightarrow> (s, None)
      | _ \<Rightarrow>
        (case Parse s of
           Inl err \<Rightarrow> (s, Some err)
         | Inr u \<Rightarrow>
           (case Values opt of
              Inl err \<Rightarrow> (s, Some err)
            | Inr qs \<Rightarrow> (String (u\<lparr>RawQuery := Encode qs\<rparr>), None))))"

subsection \<open>AddAuthorization\<close>

definition Header_Set :: "request \<Rightarrow> string \<Rightarrow> string \<Rightarrow> request" where
  "Header_Set req k v = req\<lparr>Header := (Header req)(k \<mapsto> [v])\<rparr>"

text \<open>The request is a pointer: the function returns the request as it is afterwards.\<close>

definition AddAuthorization :: "Client \<Rightarrow> ctx \<Rightarrow> request \<Rightarrow> request \<times> error option" where
  "AddAuthorization c ctx req =
     ((if apiToken c \<noteq> [] then Header_Set req ''Authorization'' (Sprintf ''SSWS %s'' [apiToken c])
       else req),
      None)"

subsection \<open>Do\<close>

text \<open>
  \<open>json.NewDecoder(body).Decode(v)\<close>. The decoder reads the stream until its scanner has
  seen the end of one JSON value and only then unmarshals it into \<open>v\<close>. The JSON grammar
  is the parameter \<open>scan\<close>, applied to the bytes the stream delivers and to whether the
  stream ended cleanly (a top-level number is known to be complete only at a clean end);
  \<open>unmarshal\<close> stores a scanned value into the destination. When the stream stops before
  a value is complete, the decoder returns the read error as it is; at a clean end it
  returns \<open>io.EOF\<close> if it has seen nothing but white space (\<open>nonSpace\<close> of the library)
  and \<open>io.ErrUnexpectedEOF\<close> otherwise. White space alone never completes a value.
\<close>

datatype 'j scan_result = Complete 'j | Incomplete | Invalid string

definition isSpace :: "char \<Rightarrow> bool" where
  "isSpace c = (c = CHR '' '' \<or> c = CHR 0x09 \<or> c = CHR 0x0D \<or> c = CHR 0x0A)"

definition nonSpace :: "bytes \<Rightarrow> bool" where
  "nonSpace b = (filter (\<lambda>c. \<not> isSpace c) b \<noteq> [])"

definition Decode ::
  "(bytes \<Rightarrow> bool \<Rightarrow> 'j scan_result) \<Rightarrow> ('j \<Rightarrow> 'v \<Rightarrow> 'v \<times> error option)
     \<Rightarrow> body \<Rightarrow> 'v \<Rightarrow> 'v \<times> error option" where
  "Decode scan unmarshal b v =
     (if nonSpace (content b) then
        (case scan (content b) (failure b = None) of
           Complete j \<Rightarrow> unmarshal j v
         | Invalid msg \<Rightarrow> (v, Some (JSONError msg))
         | Incomplete \<Rightarrow>
             (case failure b of
                Some m \<Rightarrow> (v, Some (ReadError m))
              | None \<Rightarrow> (v, Some ErrUnexpectedEOF)))
      else
        (case failure b of
           Some m \<Rightarrow> (v, Some (ReadError m))
         | None \<Rightarrow> (v, Some EOF)))"

text \<open>
  The destination \<open>v interface{}\<close> of \<open>Do\<close>: nil, a value that implements \<open>io.Writer\<close>
  (modelled by the bytes written to it so far; its writes succeed), or any other value.
\<close>

datatype 'v dest = NilDest | Writer bytes | Value 'v

definition newResponse :: "http_Response \<Rightarrow> Response" where
  "newResponse resp = Response resp"

text \<open>
  Lines 100 to 103 of \<open>Do\<close>: the request that is handed to the transport.
\<close>

definition Do_request :: "ctx \<Rightarrow> request \<Rightarrow> request" where
  "Do_request ctx req =
     Header_Set (Header_Set (req\<lparr>Context := ctx\<rparr>) ''Accept'' ''application/json'')
       ''Content-Type'' ''application/json''"

text \<open>
  \<open>transport\<close> is \<open>c.client.Do\<close>: it answers a request with an error or a response.
  \<open>Do\<close> returns the response pointer (\<open>None\<close> for nil), the error (\<open>None\<close> for nil) and the
  destination as it is afterwards. \<open>io.Copy(w, resp.Body)\<close> writes the bytes the body
  delivers to the writer; its two results (byte count and error) are not assigned.
  The deferred drain and close of the body change none of the three results.
\<close>

definition Do ::
  "(request \<Rightarrow> error + http_Response) \<Rightarrow> (int \<Rightarrow> string)
     \<Rightarrow> (bytes \<Rightarrow> bool \<Rightarrow> 'j scan_result) \<Rightarrow> ('j \<Rightarrow> 'v \<Rightarrow> 'v \<times> error option)
     \<Rightarrow> ctx \<Rightarrow> request \<Rightarrow> 'v dest \<Rightarrow> Response option \<times> error option \<times> 'v dest" where
  "Do transport StatusText scan unmarshal ctx req v =
     (case transport (Do_request ctx req) of
        Inl err \<Rightarrow>
          (case ctx_Err ctx of
             Some e \<Rightarrow> (None, Some (ContextError e), v)
           | None \<Rightarrow> (None, Some err, v))
      | Inr resp \<Rightarrow>
          (let response = newResponse resp in
           case checkResponse StatusText resp of
             Some err \<Rightarrow> (Some response, Some err, v)
           | None \<Rightarrow>
               (case v of
                  NilDest \<Rightarrow> (Some response, None, v)
                | Writer w \<Rightarrow> (Some response, None, Writer (w @ content (Body resp)))
                | Value x \<Rightarrow>
                    (let (x', err) = Decode scan unmarshal (Body resp) x
                     in (Some response, (case err of Some EOF \<Rightarrow> None | _ \<Rightarrow> err), Value x')))))"

subsection \<open>NewRequest\<close>

text \<open>
  \<open>http.NewRequest\<close>: an empty method means \<open>GET\<close>; an invalid method or an unparsable URL
  is an error; the request it returns has a fresh, empty header map and the background
  context. \<open>validMethod\<close> is the library's check of the method token.
\<close>

definition http_NewRequest ::
  "(string \<Rightarrow> bool) \<Rightarrow> (string \<Rightarrow> error + url) \<Rightarrow> string \<Rightarrow> string \<Rightarrow> bytes option
     \<Rightarrow> error + request" where
  "http_NewRequest validMethod Parse method urlStr buf =
     (let method' = (if method = [] then ''GET'' else method) in
      if validMethod method' then
        (case Parse urlStr of
           Inl err \<Rightarrow> Inl err
         | Inr u \<Rightarrow>
             Inr \<lparr>Method = method', URL = u, Header = Map.empty, ReqBody = buf,
                  Context = Active\<rparr>)
      else Inl (RequestError ''net/http: invalid method''))"

text \<open>
  \<open>ResolveReference\<close> is \<open>(*url.URL).ResolveReference\<close> with its receiver \<open>c.BaseURL\<close>, which
  may be nil: the library panics when it has to read a nil base. \<open>Encode\<close> is
  \<open>json.NewEncoder(buf).Encode(body)\<close>, giving the bytes written to the buffer.
  The \<open>body interface{}\<close> argument is \<open>None\<close> when it is the nil interface.
\<close>

definition NewRequest ::
  "(string \<Rightarrow> bool) \<Rightarrow> (string \<Rightarrow> error + url) \<Rightarrow> (url option \<Rightarrow> url \<Rightarrow> error + url)
     \<Rightarrow> (url \<Rightarrow> string) \<Rightarrow> ('b \<Rightarrow> error + bytes)
     \<Rightarrow> Client \<Rightarrow> string \<Rightarrow> string \<Rightarrow> 'b option \<Rightarrow> error + request" where
  "NewRequest validMethod Parse ResolveReference String Encode c method urlStr body =
     (case Parse urlStr of
        Inl err \<Rightarrow> Inl err
      | Inr rel \<Rightarrow>
        (case ResolveReference (BaseURL c) rel of
           Inl p \<Rightarrow> Inl p
         | Inr u \<Rightarrow>
           (case (case body of
                    None \<Rightarrow> Inr None
                  | Some b \<Rightarrow> (case Encode b of Inl err \<Rightarrow> Inl err | Inr bs \<Rightarrow> Inr (Some bs))) of
              Inl err \<Rightarrow> Inl err
            | Inr buf \<Rightarrow>
              (case http_NewRequest validMethod Parse method (String u) buf of
                 Inl err \<Rightarrow> Inl err
               | Inr req \<Rightarrow>
                   (let req1 = (if body \<noteq> None
                                then Header_Set req ''Content-Type'' ''application/json''
                                else req);
                        req2 = Header_Set req1 ''Accept'' ''application/json'';
                        req3 = (if UserAgent c \<noteq> []
                                then Header_Set req2 ''User-Agent'' (UserAgent c)
                                else req2)
                    in Inr req3)))))"

section \<open>Stand-ins for the library, to run the model on concrete inputs\<close>

text \<open>
  \<open>url.Parse\<close> rejects a string that holds an ASCII control byte before it looks at
  anything else. The stand-in makes that check and accepts every other string as a path.
\<close>

definition isCTL :: "char \<Rightarrow> bool" where
  "isCTL c = ((of_char c :: nat) < 32 \<or> (of_char c :: nat) = 127)"

definition stub_Parse :: "string \<Rightarrow> error + url" where
  "stub_Parse s =
     (if filter isCTL s \<noteq> [] then Inl (URLError ''net/url: invalid control character in URL'')
      else Inr \<lparr>Scheme = [], Host = [], Path = s, RawQuery = []\<rparr>)"

definition stub_String :: "url \<Rightarrow> string" where
  "stub_String u = Path u @ (if RawQuery u = [] then [] else CHR ''?'' # RawQuery u)"

definition stub_Resolve :: "url option \<Rightarrow> url \<Rightarrow> error + url" where
  "stub_Resolve base rel =
     (case base of
        None \<Rightarrow> Inl (Panic ''invalid memory address or nil pointer dereference'')
      | Some b \<Rightarrow> Inr (rel\<lparr>Path := Path b @ Path rel\<rparr>))"

definition stub_Encode :: "string \<Rightarrow> error + bytes" where
  "stub_Encode b = Inr (b @ [CHR 0x0A])"

definition stub_validMethod :: "string \<Rightarrow> bool" where
  "stub_validMethod m = (m \<noteq> [])"

definition stub_StatusText :: "int \<Rightarrow> string" where
  "stub_StatusText c =
     (if c = 404 then ''Not Found''
      else if c = 500 then ''Internal Server Error''
      else [])"

text \<open>A scanner for which a value ends only at the clean end of the stream, and a
  destination that is replaced by the scanned text.\<close>

definition stub_scan :: "bytes \<Rightarrow> bool \<Rightarrow> string scan_result" where
  "stub_scan b atEOF = (if atEOF then Complete b else Incomplete)"

definition stub_unmarshal :: "string \<Rightarrow> string \<Rightarrow> string \<times> error option" where
  "stub_unmarshal j v = (j, None)"

text \<open>Transports that answer every request with one response, or with one error.\<close>

definition reply :: "http_Response \<Rightarrow> request \<Rightarrow> error + http_Response" where
  "reply resp req = Inr resp"

definition refuse :: "error \<Rightarrow> request \<Rightarrow> error + http_Response" where
  "refuse err req = Inl err"

text \<open>A bodiless request, and responses whose body ends cleanly or breaks off.\<close>

definition get_users :: request where
  "get_users =
     \<lparr>Method = ''GET'', URL = \<lparr>Scheme = [], Host = [], Path = ''users'', RawQuery = []\<rparr>,
      Header = Map.empty, ReqBody = None, Context = Active\<rparr>"

definition get_user_42 :: request where
  "get_user_42 =
     \<lparr>Method = ''GET'',
      URL = \<lparr>Scheme = [], Host = [], Path = ''https://acme.okta.com/users/42'', RawQuery = []\<rparr>,
      Header = [''Accept'' \<mapsto> [''application/json'']], ReqBody = None, Context = Active\<rparr>"

definition post_user :: request where
  "post_user =
     \<lparr>Method = ''POST'',
      URL = \<lparr>Scheme = [], Host = [], Path = ''https://acme.okta.com/users'', RawQuery = []\<rparr>,
      Header = [''Content-Type'' \<mapsto> [''application/json''], ''Accept'' \<mapsto> [''application/json'']],
      ReqBody = Some (''{}'' @ [CHR 0x0A]), Context = Active\<rparr>"

definition whole_response :: "int \<Rightarrow> bytes \<Rightarrow> http_Response" where
  "whole_response c b =
     \<lparr>StatusCode = c, RespHeader = Map.empty, Body = \<lparr>content = b, failure = None\<rparr>\<rparr>"

definition broken_response :: "int \<Rightarrow> bytes \<Rightarrow> http_Response" where
  "broken_response c b =
     \<lparr>StatusCode = c, RespHeader = Map.empty,
      Body = \<lparr>content = b, failure = Some ''read: connection reset by peer''\<rparr>\<rparr>"

section \<open>Properties\<close>

subsection \<open>Shared lemmas\<close>

text \<open>
  What \<open>checkResponse\<close> returns for a status outside 200..299, by whether the body
  could be read.
\<close>

lemma not_2xx_checkResponse:
  "\<not> (200 \<le> StatusCode r \<and> StatusCode r \<le> 299) \<Longrightarrow>
   checkResponse st r =
     Some (APIError (case failure (Body r) of
        None \<Rightarrow> \<lparr>ErrResponse = r, Code = StatusCode r, Type = st (StatusCode r), Message = content (Body r)\<rparr>
      | Some m \<Rightarrow> \<lparr>ErrResponse = r, Code = 0, Type = [], Message = []\<rparr>))"
  by (auto simp add: checkResponse_def ReadAll_def Let_def split: option.splits)

text \<open>
  The origin that \<open>New\<close> formats from the template and the organisation.
\<close>

lemma buildURL_baseURL: "buildURL baseURL [org] = ''https://'' @ org @ ''.okta.com/''"
  by (simp add: buildURL_def baseURL_def)

text \<open>
  The two content-negotiation headers of a request that \<open>NewRequest\<close> has built.
\<close>

lemma NewRequest_headers:
  "NewRequest vm Parse Resolve String Encode c meth urlStr body = Inr req \<Longrightarrow>
   Header req ''Accept'' = Some [''application/json''] \<and>
   Header req ''Content-Type'' = (if body = None then None else Some [''application/json''])"
  by (auto simp add: NewRequest_def http_NewRequest_def Header_Set_def Let_def
      split: sum.splits option.splits if_splits)

text \<open>
  Two requests built against the stand-ins: a \<open>GET\<close> without a body and a \<open>POST\<close> with one.
\<close>

lemma NewRequest_get_user_42:
  "NewRequest stub_validMethod stub_Parse stub_Resolve stub_String stub_Encode
     (New stub_Parse ''tok123'' ''acme'') ''GET'' ''users/42'' (None :: string option)
     = Inr get_user_42"
  by (simp add: NewRequest_def http_NewRequest_def New_def buildURL_baseURL stub_Parse_def
      isCTL_def stub_Resolve_def stub_String_def stub_validMethod_def Header_Set_def
      get_user_42_def)

lemma NewRequest_post_user:
  "NewRequest stub_validMethod stub_Parse stub_Resolve stub_String stub_Encode
     (New stub_Parse ''tok123'' ''acme'') ''POST'' ''users'' (Some ''{}'')
     = Inr post_user"
  by (simp add: NewRequest_def http_NewRequest_def New_def buildURL_baseURL stub_Parse_def
      isCTL_def stub_Resolve_def stub_String_def stub_validMethod_def Header_Set_def
      post_user_def stub_Encode_def)

text \<open>
  The \<open>io.Writer\<close> branch of \<open>Do\<close>: for a 2xx response the bytes the body delivered are
  appended to the writer and the error is nil, whether the body ended cleanly or not.
\<close>

lemma Do_writer:
  "transport (Do_request ctx req) = Inr resp \<Longrightarrow>
   200 \<le> StatusCode resp \<and> StatusCode resp \<le> 299 \<Longrightarrow>
   Do transport st scan unmarshal ctx req (Writer w)
     = (Some (newResponse resp), None, Writer (w @ content (Body resp)))"
  by (simp add: Do_def checkResponse_def)

subsection \<open>checkResponse: status classes (C1, C10)\<close>

text \<open>
  C1, as the code has it. \<open>checkResponse\<close> returns a nil error exactly when the status
  code lies in 200..299. For every other status code it returns a non-nil
  \<open>ErrorResponse\<close>, and the \<open>Code\<close> of that value equals the status code whenever the body
  was read without an I/O error.
\<close>

theorem checkResponse_status:
  "(checkResponse st r = None \<longleftrightarrow> 200 \<le> StatusCode r \<and> StatusCode r \<le> 299) \<and>
   (\<not> (200 \<le> StatusCode r \<and> StatusCode r \<le> 299) \<longrightarrow>
      (\<exists>e. checkResponse st r = Some (APIError e) \<and>
           (failure (Body r) = None \<longrightarrow> Code e = StatusCode r)))"
proof (intro conjI impI)
  show "checkResponse st r = None \<longleftrightarrow> 200 \<le> StatusCode r \<and> StatusCode r \<le> 299"
    by (simp add: checkResponse_def ReadAll_def Let_def)
next
  assume n: "\<not> (200 \<le> StatusCode r \<and> StatusCode r \<le> 299)"
  show "\<exists>e. checkResponse st r = Some (APIError e) \<and>
           (failure (Body r) = None \<longrightarrow> Code e = StatusCode r)"
    unfolding not_2xx_checkResponse [OF n] by (cases "failure (Body r)") simp_all
qed

text \<open>
  The theorem at status 204 (nil error) and at status 404 with a readable body (\<open>Code = 404\<close>).
\<close>

theorem checkResponse_status_witness:
  "checkResponse stub_StatusText (whole_response 204 []) = None \<and>
   \<not> (200 \<le> (404::int) \<and> (404::int) \<le> 299) \<and>
   failure (Body (whole_response 404 ''{}'')) = None \<and>
   (\<exists>e. checkResponse stub_StatusText (whole_response 404 ''{}'') = Some (APIError e) \<and> Code e = 404)"
  using checkResponse_status [of stub_StatusText "whole_response 204 []"]
        checkResponse_status [of stub_StatusText "whole_response 404 ''{}''"]
  by (simp add: whole_response_def)

text \<open>
  C1 as it is written asks for \<open>Code = c\<close> at every status outside 200..299. A 404 whose
  body breaks off while it is read gives an \<open>ErrorResponse\<close> with \<open>Code = 0\<close>: the fields
  are filled only under the guard \<open>err == nil && data != nil\<close>.
\<close>

theorem checkResponse_code_counterexample:
  "StatusCode (broken_response 404 ''par'') = 404 \<and>
   checkResponse stub_StatusText (broken_response 404 ''par'') =
     Some (APIError \<lparr>ErrResponse = broken_response 404 ''par'', Code = 0, Type = [], Message = []\<rparr>)"
  by (simp add: checkResponse_def ReadAll_def broken_response_def Let_def)

text \<open>
  C10. For a status outside 200..299 whose body cannot be read (\<open>ReadAll\<close> returns an
  error), \<open>checkResponse\<close> still returns a non-nil \<open>ErrorResponse\<close>; its \<open>Code\<close>, \<open>Type\<close> and
  \<open>Message\<close> stay at their zero values 0, \<open>""\<close> and \<open>""\<close>.
\<close>

theorem checkResponse_unread_body:
  "\<not> (200 \<le> StatusCode r \<and> StatusCode r \<le> 299) \<Longrightarrow> failure (Body r) = Some m \<Longrightarrow>
   checkResponse st r = Some (APIError \<lparr>ErrResponse = r, Code = 0, Type = [], Message = []\<rparr>)"
  by (simp add: checkResponse_def ReadAll_def Let_def)

text \<open>
  The theorem at a 500 whose body breaks off.
\<close>

theorem checkResponse_unread_body_witness:
  "\<not> (200 \<le> StatusCode (broken_response 500 ''oops'') \<and> StatusCode (broken_response 500 ''oops'') \<le> 299) \<and>
   failure (Body (broken_response 500 ''oops'')) = Some ''read: connection reset by peer'' \<and>
   checkResponse stub_StatusText (broken_response 500 ''oops'') 
     = Some (APIError \<lparr>ErrResponse = broken_response 500 ''oops'', Code = 0, Type = [], Message = []\<rparr>)"
proof -
  have a: "\<not> (200 \<le> StatusCode (broken_response 500 ''oops'') \<and> StatusCode (broken_response 500 ''oops'') \<le> 299)"
    by (simp add: broken_response_def)
  have b: "failure (Body (broken_response 500 ''oops'')) = Some ''read: connection reset by peer''"
    by (simp add: broken_response_def)
  show ?thesis using a b checkResponse_unread_body [OF a b, of stub_StatusText] by simp
qed

subsection \<open>Do: transport failure, error responses, decoding (C2, C3, C7, C8)\<close>

text \<open>
  C2. When the transport call fails and the context is done, \<open>Do\<close> returns a nil
  response and the context's error \<open>ctx.Err()\<close>, not the transport's error.
\<close>

theorem Do_context_error:
  "transport (Do_request ctx req) = Inl err \<Longrightarrow> ctx = Done ce \<Longrightarrow>
   Do transport st scan unmarshal ctx req v = (None, Some (ContextError ce), v)"
  by (simp add: Do_def)

text \<open>
  The theorem for a transport that reports a connection reset under a cancelled context.
\<close>

theorem Do_context_error_witness:
  "refuse (TransportError ''connection reset'') (Do_request (Done Canceled) get_users)
     = Inl (TransportError ''connection reset'') \<and>
   Do (refuse (TransportError ''connection reset'')) stub_StatusText stub_scan stub_unmarshal
      (Done Canceled) get_users (Value ''old'')
     = (None, Some (ContextError Canceled), Value ''old'')"
  using Do_context_error [of "refuse (TransportError ''connection reset'')" "Done Canceled" get_users
      "TransportError ''connection reset''" Canceled stub_StatusText stub_scan stub_unmarshal "Value ''old''"]
  by (simp add: refuse_def)

text \<open>
  C3. When the transport answers with a status outside 200..299, \<open>Do\<close> returns a non-nil
  \<open>Response\<close> together with a non-nil \<open>ErrorResponse\<close>. The \<open>Response\<close> is the one that
  \<open>newResponse\<close> builds: it embeds the transport's answer itself, so its status code and
  headers are those of the answer, and the \<open>ErrorResponse\<close> refers to the same answer.
  The destination is not touched.
\<close>

theorem Do_error_with_response:
  "transport (Do_request ctx req) = Inr resp \<Longrightarrow>
   \<not> (200 \<le> StatusCode resp \<and> StatusCode resp \<le> 299) \<Longrightarrow>
   \<exists>e. Do transport st scan unmarshal ctx req v
         = (Some (Response resp), Some (APIError e), v) \<and> ErrResponse e = resp"
  by (auto simp add: Do_def newResponse_def not_2xx_checkResponse split: option.splits)

text \<open>
  The theorem for a transport that answers 404.
\<close>

theorem Do_error_with_response_witness:
  "reply (whole_response 404 ''{}'') (Do_request Active get_users) = Inr (whole_response 404 ''{}'') \<and>
   \<not> (200 \<le> StatusCode (whole_response 404 ''{}'') \<and> StatusCode (whole_response 404 ''{}'') \<le> 299) \<and>
   (\<exists>e. Do (reply (whole_response 404 ''{}'')) stub_StatusText stub_scan stub_unmarshal Active get_users (Value ''old'')
         = (Some (Response (whole_response 404 ''{}'')), Some (APIError e), Value ''old'')
       \<and> ErrResponse e = whole_response 404 ''{}'')"
proof -
  have a: "reply (whole_response 404 ''{}'') (Do_request Active get_users) = Inr (whole_response 404 ''{}'')"
    by (simp add: reply_def)
  have b: "\<not> (200 \<le> StatusCode (whole_response 404 ''{}'') \<and> StatusCode (whole_response 404 ''{}'') \<le> 299)"
    by (simp add: whole_response_def)
  show ?thesis
    using a b Do_error_with_response [where transport = "reply (whole_response 404 ''{}'')"
        and ctx = Active and req = get_users and resp = "whole_response 404 ''{}''"
        and st = stub_StatusText and scan = stub_scan and unmarshal = stub_unmarshal
        and v = "Value ''old''"]
    by simp
qed

text \<open>
  C7. For a 2xx response with an empty body and a destination that is neither nil nor an
  \<open>io.Writer\<close>, \<open>Do\<close> returns a nil error and the destination is unchanged: the
  decoder's \<open>io.EOF\<close> is replaced by nil before anything is unmarshalled.
\<close>

theorem Do_empty_body:
  "transport (Do_request ctx req) = Inr resp \<Longrightarrow>
   200 \<le> StatusCode resp \<and> StatusCode resp \<le> 299 \<Longrightarrow>
   content (Body resp) = [] \<Longrightarrow> failure (Body resp) = None \<Longrightarrow>
   Do transport st scan unmarshal ctx req (Value x) = (Some (newResponse resp), None, Value x)"
  by (simp add: Do_def checkResponse_def Decode_def nonSpace_def)

text \<open>
  The theorem for a transport that answers 204 with no body.
\<close>

theorem Do_empty_body_witness:
  "reply (whole_response 204 []) (Do_request Active get_users) = Inr (whole_response 204 []) \<and>
   200 \<le> StatusCode (whole_response 204 []) \<and> StatusCode (whole_response 204 []) \<le> 299 \<and>
   content (Body (whole_response 204 [])) = [] \<and> failure (Body (whole_response 204 [])) = None \<and>
   Do (reply (whole_response 204 [])) stub_StatusText stub_scan stub_unmarshal Active get_users (Value ''old'')
     = (Some (newResponse (whole_response 204 [])), None, Value ''old'')"
proof -
  have a: "reply (whole_response 204 []) (Do_request Active get_users) = Inr (whole_response 204 [])"
    by (simp add: reply_def)
  have b: "200 \<le> StatusCode (whole_response 204 []) \<and> StatusCode (whole_response 204 []) \<le> 299"
    by (simp add: whole_response_def)
  have c: "content (Body (whole_response 204 [])) = []" by (simp add: whole_response_def)
  have d: "failure (Body (whole_response 204 [])) = None" by (simp add: whole_response_def)
  show ?thesis
    using a b c d Do_empty_body [where transport = "reply (whole_response 204 [])"
        and ctx = Active and req = get_users and resp = "whole_response 204 []"
        and st = stub_StatusText and scan = stub_scan and unmarshal = stub_unmarshal
        and x = "''old''"]
    by simp
qed

text \<open>
  C8, as the code has it. For a 2xx response and a destination that is neither nil nor an
  \<open>io.Writer\<close>, when the body breaks off with an I/O error before the decoder has seen
  the end of a JSON value (or a syntax error), \<open>Do\<close> returns that I/O error as it is,
  with the response, and leaves the destination unchanged.
\<close>

theorem Do_decode_read_error:
  "transport (Do_request ctx req) = Inr resp \<Longrightarrow>
   200 \<le> StatusCode resp \<and> StatusCode resp \<le> 299 \<Longrightarrow>
   failure (Body resp) = Some m \<Longrightarrow>
   nonSpace (content (Body resp)) \<longrightarrow> scan (content (Body resp)) False = Incomplete \<Longrightarrow>
   Do transport st scan unmarshal ctx req (Value x)
     = (Some (newResponse resp), Some (ReadError m), Value x)"
  by (simp add: Do_def checkResponse_def Decode_def)

text \<open>
  The theorem for a 200 whose body breaks off after an opening brace.
\<close>

theorem Do_decode_read_error_witness:
  "reply (broken_response 200 ''{'') (Do_request Active get_users) = Inr (broken_response 200 ''{'') \<and>
   200 \<le> StatusCode (broken_response 200 ''{'') \<and> StatusCode (broken_response 200 ''{'') \<le> 299 \<and>
   failure (Body (broken_response 200 ''{'')) = Some ''read: connection reset by peer'' \<and>
   nonSpace (content (Body (broken_response 200 ''{''))) \<and>
   stub_scan (content (Body (broken_response 200 ''{''))) False = Incomplete \<and>
   Do (reply (broken_response 200 ''{'')) stub_StatusText stub_scan stub_unmarshal Active get_users
      (Value ''old'')
     = (Some (newResponse (broken_response 200 ''{'')),
        Some (ReadError ''read: connection reset by peer''), Value ''old'')"
proof -
  have a: "reply (broken_response 200 ''{'') (Do_request Active get_users) = Inr (broken_response 200 ''{'')"
    by (simp add: reply_def)
  have b: "200 \<le> StatusCode (broken_response 200 ''{'') \<and> StatusCode (broken_response 200 ''{'') \<le> 299"
    by (simp add: broken_response_def)
  have c: "failure (Body (broken_response 200 ''{'')) = Some ''read: connection reset by peer''"
    by (simp add: broken_response_def)
  have d: "nonSpace (content (Body (broken_response 200 ''{'')))"
    by (simp add: broken_response_def nonSpace_def isSpace_def)
  have e: "stub_scan (content (Body (broken_response 200 ''{''))) False = Incomplete"
    by (simp add: stub_scan_def)
  show ?thesis
    using a b c d e Do_decode_read_error [where transport = "reply (broken_response 200 ''{'')"
        and ctx = Active and req = get_users and resp = "broken_response 200 ''{''"
        and m = "''read: connection reset by peer''"
        and st = stub_StatusText and scan = stub_scan and unmarshal = stub_unmarshal
        and x = "''old''"]
    by simp
qed

text \<open>
  C8 as it is written covers every response whose body read fails. For a 500 whose body
  breaks off, the caller gets the zero-valued \<open>ErrorResponse\<close> and not the I/O error
  (\<open>checkResponse\<close> drops the error of \<open>ReadAll\<close>). For a 200 with an \<open>io.Writer\<close>
  destination whose body breaks off, the caller gets a nil error: the results of
  \<open>io.Copy\<close> are not assigned.
\<close>

theorem read_error_counterexample:
  "Do (reply (broken_response 500 ''par'')) stub_StatusText stub_scan stub_unmarshal Active
      get_users (Value ''old'')
     = (Some (newResponse (broken_response 500 ''par'')),
        Some (APIError \<lparr>ErrResponse = broken_response 500 ''par'', Code = 0, Type = [],
                        Message = []\<rparr>),
        Value ''old'') \<and>
   Do (reply (broken_response 200 ''par'')) stub_StatusText stub_scan stub_unmarshal Active
      get_users (Writer ''old'' :: string dest)
     = (Some (newResponse (broken_response 200 ''par'')), None, Writer ''oldpar'') \<and>
   failure (Body (broken_response 500 ''par'')) = Some ''read: connection reset by peer'' \<and>
   failure (Body (broken_response 200 ''par'')) = Some ''read: connection reset by peer''"
  by (simp add: Do_def reply_def checkResponse_def ReadAll_def broken_response_def Let_def)

subsection \<open>addOptions (C4)\<close>

text \<open>
  C4. For every path \<open>s\<close>, \<open>addOptions\<close> applied to a nil pointer returns \<open>s\<close> unchanged
  and a nil error, whatever the URL parser and the query encoder would do.
\<close>

theorem addOptions_nil_pointer:
  "addOptions Parse Values Encode String s NilPtr = (s, None)"
  by (simp add: addOptions_def)

subsection \<open>Request headers (C5)\<close>

text \<open>
  C5, as the code has it. A request built by \<open>NewRequest\<close> carries
  \<open>Accept: application/json\<close>, and carries \<open>Content-Type: application/json\<close> when a body
  is supplied and no \<open>Content-Type\<close> header when none is. \<open>Do\<close> then sets both
  \<open>Accept\<close> and \<open>Content-Type\<close> to \<open>application/json\<close> on every request it hands to the
  transport, with or without a body.
\<close>

theorem request_headers:
  "(NewRequest vm Parse Resolve String Encode c meth urlStr body = Inr req \<longrightarrow>
      Header req ''Accept'' = Some [''application/json''] \<and>
      (body \<noteq> None \<longrightarrow> Header req ''Content-Type'' = Some [''application/json'']) \<and>
      (body = None \<longrightarrow> Header req ''Content-Type'' = None)) \<and>
   Header (Do_request ctx r) ''Accept'' = Some [''application/json''] \<and>
   Header (Do_request ctx r) ''Content-Type'' = Some [''application/json'']"
proof (intro conjI impI)
  assume "NewRequest vm Parse Resolve String Encode c meth urlStr body = Inr req"
  note h = NewRequest_headers [OF this]
  from h show "Header req ''Accept'' = Some [''application/json'']" by simp
  from h show "Header req ''Content-Type'' = Some [''application/json'']" if "body \<noteq> None"
    using that by simp
  from h show "Header req ''Content-Type'' = None" if "body = None"
    using that by simp
next
  show "Header (Do_request ctx r) ''Accept'' = Some [''application/json'']"
    by (simp add: Do_request_def Header_Set_def)
  show "Header (Do_request ctx r) ''Content-Type'' = Some [''application/json'']"
    by (simp add: Do_request_def Header_Set_def)
qed

text \<open>
  The theorem for a \<open>GET\<close> without a body and a \<open>POST\<close> with one.
\<close>

theorem request_headers_witness:
  "NewRequest stub_validMethod stub_Parse stub_Resolve stub_String stub_Encode
     (New stub_Parse ''tok123'' ''acme'') ''GET'' ''users/42'' (None :: string option)
     = Inr get_user_42 \<and>
   Header get_user_42 ''Accept'' = Some [''application/json''] \<and>
   Header get_user_42 ''Content-Type'' = None \<and>
   NewRequest stub_validMethod stub_Parse stub_Resolve stub_String stub_Encode
     (New stub_Parse ''tok123'' ''acme'') ''POST'' ''users'' (Some ''{}'')
     = Inr post_user \<and>
   Header post_user ''Accept'' = Some [''application/json''] \<and>
   Header post_user ''Content-Type'' = Some [''application/json''] \<and>
   Header (Do_request Active get_user_42) ''Content-Type'' = Some [''application/json'']"
  using NewRequest_get_user_42 NewRequest_post_user
    request_headers [where vm = stub_validMethod and Parse = stub_Parse and Resolve = stub_Resolve
      and String = stub_String and Encode = stub_Encode and c = "New stub_Parse ''tok123'' ''acme''"
      and meth = "''GET''" and urlStr = "''users/42''" and body = "None :: string option"
      and req = get_user_42 and ctx = Active and r = get_user_42]
    request_headers [where vm = stub_validMethod and Parse = stub_Parse and Resolve = stub_Resolve
      and String = stub_String and Encode = stub_Encode and c = "New stub_Parse ''tok123'' ''acme''"
      and meth = "''POST''" and urlStr = "''users''" and body = "Some ''{}''"
      and req = post_user and ctx = Active and r = get_user_42]
  by simp

text \<open>
  C5 as it is written says that an outbound request without a body carries no
  \<open>Content-Type\<close> header. The bodiless \<open>GET\<close> built by \<open>NewRequest\<close> has none, and the
  request \<open>Do\<close> hands to the transport for it has \<open>Content-Type: application/json\<close>.
\<close>

theorem Content_Type_counterexample:
  "NewRequest stub_validMethod stub_Parse stub_Resolve stub_String stub_Encode
     (New stub_Parse ''tok123'' ''acme'') ''GET'' ''users/42'' (None :: string option)
     = Inr get_user_42 \<and>
   ReqBody get_user_42 = None \<and>
   Header get_user_42 ''Content-Type'' = None \<and>
   Header (Do_request Active get_user_42) ''Content-Type'' = Some [''application/json'']"
  by (simp add: NewRequest_def http_NewRequest_def New_def buildURL_baseURL stub_Parse_def
      isCTL_def stub_Resolve_def stub_String_def stub_validMethod_def Header_Set_def
      get_user_42_def Do_request_def)

subsection \<open>New (C6)\<close>

text \<open>
  C6, as the code has it. \<open>New\<close> builds the origin \<open>https://<organisation>.okta.com/\<close>
  from the template and the organisation and parses it. It always returns a client and
  has no error result: when the string is not a valid URL the parse error is discarded
  and the client's \<open>BaseURL\<close> is nil.
\<close>

theorem New_total:
  "New Parse tok org =
     \<lparr>BaseURL = (case Parse (''https://'' @ org @ ''.okta.com/'') of
                   Inl e \<Rightarrow> None | Inr u \<Rightarrow> Some u),
      organisation = org, apiToken = tok, UserAgent = []\<rparr>"
  by (simp add: New_def buildURL_baseURL del: append.simps)

text \<open>
  C6 as it is written says that an invalid origin makes the construction fail with an
  error the caller sees. An organisation with a line feed gives a string the parser
  rejects, and \<open>New\<close> returns a client with a nil \<open>BaseURL\<close>.
\<close>

theorem New_parse_error_counterexample:
  "stub_Parse (buildURL baseURL [[CHR ''a'', CHR 0x0A]])
     = Inl (URLError ''net/url: invalid control character in URL'') \<and>
   New stub_Parse ''tok123'' [CHR ''a'', CHR 0x0A]
     = \<lparr>BaseURL = None, organisation = [CHR ''a'', CHR 0x0A], apiToken = ''tok123'',
        UserAgent = []\<rparr>"
  by (simp add: New_def buildURL_baseURL stub_Parse_def isCTL_def)

subsection \<open>AddAuthorization (C9)\<close>

text \<open>
  C9. \<open>AddAuthorization\<close> returns a nil error. With a token configured it sets the header
  \<open>Authorization\<close> to \<open>SSWS\<close>, a space and the token, and changes nothing else of the
  request; with no token it leaves the request as it is.
\<close>

theorem AddAuthorization_header:
  "snd (AddAuthorization c ctx req) = None \<and>
   (apiToken c \<noteq> [] \<longrightarrow>
      fst (AddAuthorization c ctx req)
        = req\<lparr>Header := (Header req)(''Authorization'' \<mapsto> [''SSWS '' @ apiToken c])\<rparr>) \<and>
   (apiToken c = [] \<longrightarrow> fst (AddAuthorization c ctx req) = req)"
  by (simp add: AddAuthorization_def Header_Set_def)

text \<open>
  The theorem for a client with the token \<open>tok123\<close> and for a client with no token.
\<close>

theorem AddAuthorization_header_witness:
  "apiToken (New stub_Parse ''tok123'' ''acme'') \<noteq> [] \<and>
   Header (fst (AddAuthorization (New stub_Parse ''tok123'' ''acme'') Active get_users)) ''Authorization''
     = Some [''SSWS tok123''] \<and>
   apiToken (New stub_Parse [] ''acme'') = [] \<and>
   AddAuthorization (New stub_Parse [] ''acme'') Active get_users = (get_users, None)"
  using AddAuthorization_header [of "New stub_Parse ''tok123'' ''acme''" Active get_users]
        AddAuthorization_header [of "New stub_Parse [] ''acme''" Active get_users]
  by (simp add: New_def prod_eq_iff)

end
